theory Spec2Isabelle
  imports Main "HOL-Library.Sublist"
begin

section \<open>The object store of the scripts\<close>

text \<open>
  The three scripts are TypeScript classes. Their behaviour rests on object identity,
  own properties and prototype-chain delegation, so objects live in an explicit store:
  an address is an index into the list of allocated objects, and allocation appends.

  A value is a primitive or a reference. Numbers are only stored and compared in the
  scripts, never computed with, so an integer stands for them.
\<close>

type_synonym addr = nat

datatype jsval =
    VUndefined
  | VNull
  | VBool bool
  | VNum int
  | VStr string
  | VRef addr

text \<open>
  An object is its own (enumerable, data) properties and its prototype link. The link
  \<open>None\<close> ends the chain: it stands for \<open>null\<close>, for \<open>Object.prototype\<close> and for a
  class prototype, which hold methods only and none of the data properties read here.
\<close>

record obj =
  own :: "string \<rightharpoonup> jsval"
  proto :: "addr option"

type_synonym heap = "obj list"

datatype error =
    TypeError  \<comment> \<open>thrown by the language: \<open>Object.create\<close> of a non-object\<close>
  | Stuck      \<comment> \<open>no execution of the language: a dangling address or a cyclic chain\<close>

text \<open>
  Property read \<open>o.k\<close>: the own property if there is one, else the read continues at the
  prototype; a chain that ends without the key yields \<open>undefined\<close>. The language keeps
  chains acyclic, so a chain visits every object at most once and fuel equal to the
  number of allocated objects is enough; \<open>None\<close> marks a store no execution can build.
\<close>

fun get_fuel :: "nat \<Rightarrow> heap \<Rightarrow> addr \<Rightarrow> string \<Rightarrow> jsval option" where
  "get_fuel 0 h a k = None"
| "get_fuel (Suc n) h a k =
     (if a < length h then
        (case own (h ! a) k of
           Some v \<Rightarrow> Some v
         | None \<Rightarrow>
             (case proto (h ! a) of
                None \<Rightarrow> Some VUndefined
              | Some p \<Rightarrow> get_fuel n h p k))
      else None)"

definition get_prop :: "heap \<Rightarrow> addr \<Rightarrow> string \<Rightarrow> jsval option" where
  "get_prop h a k = get_fuel (length h) h a k"

text \<open>
  Assignment \<open>o.k = v\<close>. Every property of the scripts is a writable data property, so
  the assignment defines or overwrites the own property of the receiver \<open>o\<close>, also when
  \<open>k\<close> is so far inherited.
\<close>

definition set_prop :: "heap \<Rightarrow> addr \<Rightarrow> string \<Rightarrow> jsval \<Rightarrow> heap" where
  "set_prop h a k v =
     (if a < length h then h[a := (h ! a)\<lparr>own := (own (h ! a))(k \<mapsto> v)\<rparr>] else h)"

definition alloc :: "obj \<Rightarrow> heap \<Rightarrow> addr \<times> heap" where
  "alloc ob h = (length h, h @ [ob])"

text \<open>
  \<open>Object.create(v)\<close>: a new object without own properties whose prototype is \<open>v\<close>;
  \<open>v\<close> must be an object or \<open>null\<close>, anything else throws a TypeError.
\<close>

definition object_create :: "jsval \<Rightarrow> heap \<Rightarrow> error + addr \<times> heap" where
  "object_create v h =
     (case v of
        VRef a \<Rightarrow> Inr (alloc \<lparr>own = Map.empty, proto = Some a\<rparr> h)
      | VNull \<Rightarrow> Inr (alloc \<lparr>own = Map.empty, proto = None\<rparr> h)
      | _ \<Rightarrow> Inl TypeError)"

text \<open>
  The properties a spread element \<open>...v\<close> contributes to an object literal: the own
  enumerable properties of an object, the indexed characters of a string, and nothing
  for \<open>undefined\<close>, \<open>null\<close>, a boolean or a number.
\<close>

fun decimal :: "nat \<Rightarrow> string" where
  "decimal n =
     (if n < 10 then [''0123456789'' ! n]
      else decimal (n div 10) @ [''0123456789'' ! (n mod 10)])"

declare decimal.simps [simp del]

definition string_props :: "string \<Rightarrow> string \<rightharpoonup> jsval" where
  "string_props s = map_of (zip (map decimal [0 ..< length s]) (map (\<lambda>c. VStr [c]) s))"

definition spread_props :: "heap \<Rightarrow> jsval \<Rightarrow> (string \<rightharpoonup> jsval) option" where
  "spread_props h v =
     (case v of
        VRef a \<Rightarrow> (if a < length h then Some (own (h ! a)) else None)
      | VStr s \<Rightarrow> Some (string_props s)
      | _ \<Rightarrow> Some Map.empty)"

section \<open>Prototype\<close>

text \<open>
  \<open>Prototype.clone\<close>, statement by statement, on the receiver \<open>this\<close>:
  \<^item> \<open>const clone = Object.create(this)\<close>;
  \<^item> \<open>clone.component = Object.create(this.component)\<close>;
  \<^item> \<open>clone.circularReference = { ...this.circularReference, prototype: { ...this } }\<close>:
    the outer literal is allocated, the spread copies the holder's properties into it,
    the inner literal is allocated with the own properties of \<open>this\<close>, and the property
    \<open>prototype\<close> of the outer literal is set to it;
  \<^item> \<open>return clone\<close>.
  The method has no check of its own: the only error it raises is the TypeError of
  \<open>Object.create\<close>. The result \<open>Stuck\<close> is kept apart from it, for a receiver or a
  holder that is no allocated object and for a read that does not end.
\<close>

definition clone :: "addr \<Rightarrow> heap \<Rightarrow> error + addr \<times> heap" where
  "clone this h0 =
     (if \<not> this < length h0 then Inl Stuck
      else
        (case object_create (VRef this) h0 of
           Inl e \<Rightarrow> Inl e
         | Inr (c, h1) \<Rightarrow>
        (case get_prop h1 this ''component'' of
           None \<Rightarrow> Inl Stuck
         | Some cv \<Rightarrow>
        (case object_create cv h1 of
           Inl e \<Rightarrow> Inl e
         | Inr (c2, h2) \<Rightarrow>
        (let h3 = set_prop h2 c ''component'' (VRef c2);
             (r, h4) = alloc \<lparr>own = Map.empty, proto = None\<rparr> h3
         in
        (case get_prop h4 this ''circularReference'' of
           None \<Rightarrow> Inl Stuck
         | Some holder \<Rightarrow>
        (case spread_props h4 holder of
           None \<Rightarrow> Inl Stuck
         | Some ps \<Rightarrow>
        (let h5 = h4[r := (h4 ! r)\<lparr>own := own (h4 ! r) ++ ps\<rparr>];
             (ow, h6) = alloc \<lparr>own = Map.empty ++ own (h5 ! this), proto = None\<rparr> h5;
             h7 = set_prop h6 r ''prototype'' (VRef ow);
             h8 = set_prop h7 c ''circularReference'' (VRef r)
         in Inr (c, h8)))))))))"

text \<open>
  A well-formed Prototype: an allocated object whose three fields can be read, the
  component and the holder of the back reference being allocated objects.
\<close>

definition wf_prototype :: "heap \<Rightarrow> addr \<Rightarrow> bool" where
  "wf_prototype h p =
     (p < length h \<and>
      get_prop h p ''primitive'' \<noteq> None \<and>
      (case get_prop h p ''component'' of
         Some (VRef a) \<Rightarrow> a < length h
       | _ \<Rightarrow> False) \<and>
      (case get_prop h p ''circularReference'' of
         Some (VRef a) \<Rightarrow> a < length h
       | _ \<Rightarrow> False))"

text \<open>
  The objects \<open>clientCode\<close> builds before it clones: \<open>p1\<close> at address 0, the
  \<open>Date\<close> (no own enumerable property) at 1 and the holder at 2.
\<close>

definition client_heap :: heap where
  "client_heap =
     [\<lparr>own = [''primitive'' \<mapsto> VNum 245, ''component'' \<mapsto> VRef 1,
              ''circularReference'' \<mapsto> VRef 2],
       proto = None\<rparr>,
      \<lparr>own = Map.empty, proto = None\<rparr>,
      \<lparr>own = [''prototype'' \<mapsto> VRef 0], proto = None\<rparr>]"

text \<open>
  A Prototype whose component has an own field, one whose circularReference was never
  assigned and one whose component was never assigned (a read of a field that was never
  assigned yields \<open>undefined\<close>).
\<close>

definition year_heap :: heap where
  "year_heap =
     [\<lparr>own = [''primitive'' \<mapsto> VNum 245, ''component'' \<mapsto> VRef 1,
              ''circularReference'' \<mapsto> VRef 2],
       proto = None\<rparr>,
      \<lparr>own = [''year'' \<mapsto> VNum 2024], proto = None\<rparr>,
      \<lparr>own = [''prototype'' \<mapsto> VRef 0], proto = None\<rparr>]"

definition no_holder_heap :: heap where
  "no_holder_heap =
     [\<lparr>own = [''primitive'' \<mapsto> VNum 245, ''component'' \<mapsto> VRef 1], proto = None\<rparr>,
      \<lparr>own = Map.empty, proto = None\<rparr>]"

definition no_component_heap :: heap where
  "no_component_heap =
     [\<lparr>own = [''primitive'' \<mapsto> VNum 245, ''circularReference'' \<mapsto> VRef 1],
       proto = None\<rparr>,
      \<lparr>own = [''prototype'' \<mapsto> VRef 0], proto = None\<rparr>]"

section \<open>Singleton\<close>

text \<open>
  The process state the class touches: its private static field \<open>instance\<close>
  (\<open>undefined\<close> until the first call) and the object store. \<open>getInstance\<close> tests the
  field with \<open>!\<close>, so the truthiness of a value is modelled as the language defines it.
\<close>

record singleton_state =
  singleton_instance :: jsval
  store :: heap

fun truthy :: "jsval \<Rightarrow> bool" where
  "truthy VUndefined = False"
| "truthy VNull = False"
| "truthy (VBool b) = b"
| "truthy (VNum n) = (n \<noteq> 0)"
| "truthy (VStr s) = (s \<noteq> [])"
| "truthy (VRef a) = True"

text \<open>\<open>new Singleton()\<close>: the constructor is empty, the object has no own property.\<close>

definition new_Singleton :: "heap \<Rightarrow> addr \<times> heap" where
  "new_Singleton h = alloc \<lparr>own = Map.empty, proto = None\<rparr> h"

definition getInstance :: "singleton_state \<Rightarrow> jsval \<times> singleton_state" where
  "getInstance s =
     (let s' =
        (if \<not> truthy (singleton_instance s) then
           (let (a, h) = new_Singleton (store s)
            in s\<lparr>singleton_instance := VRef a, store := h\<rparr>)
         else s)
      in (singleton_instance s', s'))"

text \<open>The state of a process in which \<open>getInstance\<close> has not been called yet.\<close>

definition fresh_process :: "heap \<Rightarrow> singleton_state" where
  "fresh_process h = \<lparr>singleton_instance = VUndefined, store = h\<rparr>"

text \<open>The result of the call that follows \<open>n\<close> earlier calls.\<close>

fun nth_call :: "nat \<Rightarrow> singleton_state \<Rightarrow> jsval \<times> singleton_state" where
  "nth_call 0 s = getInstance s"
| "nth_call (Suc n) s = nth_call n (snd (getInstance s))"

text \<open>
  \<open>clientCode\<close> of the Singleton script: two calls, compared with \<open>===\<close>; the value
  is the line it prints.
\<close>

definition singleton_clientCode :: "singleton_state \<Rightarrow> string" where
  "singleton_clientCode s =
     (let (s1, st1) = getInstance s;
          (s2, st2) = getInstance st1
      in if s1 = s2 then ''Singleton works, both variables contain the same instance.''
         else ''Singleton failed, variables contain different instances.'')"

section \<open>Factory Method\<close>

text \<open>
  The two concrete products and the two concrete creators are the only classes that
  implement \<open>Product\<close> and extend \<open>Creator\<close>; they carry no state, so each class is a
  constructor of a datatype and a method is a function on it.
\<close>

datatype product = ConcreteProduct1 | ConcreteProduct2

datatype creator = ConcreteCreator1 | ConcreteCreator2

fun operation :: "product \<Rightarrow> string" where
  "operation ConcreteProduct1 = ''{Result of the ConcreteProduct1}''"
| "operation ConcreteProduct2 = ''{Result of the ConcreteProduct2}''"

fun factoryMethod :: "creator \<Rightarrow> product" where
  "factoryMethod ConcreteCreator1 = ConcreteProduct1"
| "factoryMethod ConcreteCreator2 = ConcreteProduct2"

definition someOperation :: "creator \<Rightarrow> string" where
  "someOperation cr =
     (let product = factoryMethod cr
      in ''Creator: The same creator's code has just worked with '' @ operation product)"

section \<open>Reading properties in a grown store\<close>

text \<open>
  A read that succeeds keeps its value when it gets more fuel and when objects are
  allocated behind the ones it visits.
\<close>

lemma get_fuel_mono:
  "get_fuel n h a k = Some v \<Longrightarrow> get_fuel (n + m) h a k = Some v"
  by (induction n arbitrary: a) (auto split: option.splits if_splits)

lemma get_fuel_append:
  "get_fuel n h a k = Some v \<Longrightarrow> get_fuel n (h @ xs) a k = Some v"
  by (induction n arbitrary: a) (auto simp: nth_append split: option.splits if_splits)

lemma get_fuel_extend:
  assumes "get_prop h a k = Some v"
  shows "get_fuel (length h + m) (h @ xs) a k = Some v"
proof -
  from assms have "get_fuel (length h) (h @ xs) a k = Some v"
    unfolding get_prop_def by (rule get_fuel_append)
  then show ?thesis
    by (rule get_fuel_mono)
qed

lemma get_prop_append:
  assumes "get_prop h a k = Some v"
  shows "get_prop (h @ xs) a k = Some v"
  using get_fuel_extend [OF assms, of "length xs" xs] by (simp add: get_prop_def)

text \<open>One step of a read at an own property, and through one prototype link.\<close>

lemma get_prop_own:
  assumes "a < length h" and "own (h ! a) k = Some v"
  shows "get_prop h a k = Some v"
proof -
  from assms(1) obtain n where "length h = Suc n"
    by (cases "length h") auto
  with assms show ?thesis
    by (simp add: get_prop_def)
qed

lemma get_prop_inherited:
  assumes a: "a < length (h @ xs)" and new: "xs \<noteq> []"
    and none: "own ((h @ xs) ! a) k = None"
    and link: "proto ((h @ xs) ! a) = Some b"
    and old: "get_prop h b k = Some v"
  shows "get_prop (h @ xs) a k = Some v"
proof -
  from new obtain m where m: "length xs = Suc m"
    by (cases xs) auto
  have "get_fuel (length h + m) (h @ xs) b k = Some v"
    using old by (rule get_fuel_extend)
  with a none link m show ?thesis
    by (simp add: get_prop_def)
qed

lemma get_prop_inherited_own:
  assumes a: "a < length h"
    and none: "own (h ! a) k = None"
    and link: "proto (h ! a) = Some b"
    and b: "b < length h"
    and some: "own (h ! b) k = Some v"
  shows "get_prop h a k = Some v"
proof -
  from none some have "a \<noteq> b"
    by auto
  with a b obtain n where "length h = Suc (Suc n)"
    by (cases "length h"; cases "length h - 1") auto
  with a none link b some show ?thesis
    by (simp add: get_prop_def)
qed

section \<open>What clone allocates\<close>

text \<open>
  On a receiver whose component read yields any reference and whose holder read yields
  an allocated object, \<open>clone\<close> succeeds, returns the first new address and appends
  four objects to the store: the clone, its component, its holder and the copy of the
  receiver that the holder points to.
\<close>

lemma clone_allocates:
  assumes p: "p < length h"
    and c: "get_prop h p ''component'' = Some (VRef c0)"
    and r: "get_prop h p ''circularReference'' = Some (VRef r0)"
    and r0: "r0 < length h"
  shows "clone p h = Inr (length h, h @
     [\<lparr>own = [''component'' \<mapsto> VRef (length h + 1),
              ''circularReference'' \<mapsto> VRef (length h + 2)], proto = Some p\<rparr>,
      \<lparr>own = Map.empty, proto = Some c0\<rparr>,
      \<lparr>own = (own (h ! r0))(''prototype'' \<mapsto> VRef (length h + 3)), proto = None\<rparr>,
      \<lparr>own = own (h ! p), proto = None\<rparr>])"
proof -
  have c1: "get_prop (h @ [x]) p ''component'' = Some (VRef c0)" for x
    using c by (rule get_prop_append)
  have r1: "get_prop (h @ [x, y, z]) p ''circularReference'' = Some (VRef r0)" for x y z
    using r by (rule get_prop_append)
  show ?thesis
    using p r0
    by (simp add: clone_def object_create_def alloc_def set_prop_def c1 r1 spread_props_def
        nth_append list_update_append eval_nat_numeral)
qed

text \<open>
  \<open>clone\<close> checks nothing itself. A receiver whose component read yields \<open>undefined\<close>
  fails in \<open>Object.create\<close>; one whose holder read yields \<open>undefined\<close> does not fail,
  since a spread of \<open>undefined\<close> contributes no property.
\<close>

lemma clone_without_component:
  assumes p: "p < length h"
    and c: "get_prop h p ''component'' = Some VUndefined"
  shows "clone p h = Inl TypeError"
proof -
  have c1: "get_prop (h @ [x]) p ''component'' = Some VUndefined" for x
    using c by (rule get_prop_append)
  show ?thesis
    using p by (simp add: clone_def object_create_def alloc_def c1)
qed

lemma clone_without_holder:
  assumes p: "p < length h"
    and c: "get_prop h p ''component'' = Some (VRef c0)"
    and r: "get_prop h p ''circularReference'' = Some VUndefined"
  shows "clone p h = Inr (length h, h @
     [\<lparr>own = [''component'' \<mapsto> VRef (length h + 1),
              ''circularReference'' \<mapsto> VRef (length h + 2)], proto = Some p\<rparr>,
      \<lparr>own = Map.empty, proto = Some c0\<rparr>,
      \<lparr>own = [''prototype'' \<mapsto> VRef (length h + 3)], proto = None\<rparr>,
      \<lparr>own = own (h ! p), proto = None\<rparr>])"
proof -
  have c1: "get_prop (h @ [x]) p ''component'' = Some (VRef c0)" for x
    using c by (rule get_prop_append)
  have r1: "get_prop (h @ [x, y, z]) p ''circularReference'' = Some VUndefined" for x y z
    using r by (rule get_prop_append)
  show ?thesis
    using p
    by (simp add: clone_def object_create_def alloc_def set_prop_def c1 r1 spread_props_def
        nth_append list_update_append eval_nat_numeral)
qed

lemma wf_prototypeE:
  assumes "wf_prototype h p"
  obtains v c0 r0 where
    "p < length h"
    "get_prop h p ''primitive'' = Some v"
    "get_prop h p ''component'' = Some (VRef c0)" "c0 < length h"
    "get_prop h p ''circularReference'' = Some (VRef r0)" "r0 < length h"
  using assms unfolding wf_prototype_def
  by (auto split: option.splits jsval.splits)

lemma clone_wf_prototype:
  assumes "wf_prototype h p"
  obtains v c0 r0 h' where
    "p < length h"
    "get_prop h p ''primitive'' = Some v"
    "get_prop h p ''component'' = Some (VRef c0)" "c0 < length h"
    "get_prop h p ''circularReference'' = Some (VRef r0)" "r0 < length h"
    "h' = h @
       [\<lparr>own = [''component'' \<mapsto> VRef (length h + 1),
                ''circularReference'' \<mapsto> VRef (length h + 2)], proto = Some p\<rparr>,
        \<lparr>own = Map.empty, proto = Some c0\<rparr>,
        \<lparr>own = (own (h ! r0))(''prototype'' \<mapsto> VRef (length h + 3)), proto = None\<rparr>,
        \<lparr>own = own (h ! p), proto = None\<rparr>]"
    "clone p h = Inr (length h, h')"
proof -
  from assms obtain v c0 r0 where
    p: "p < length h" and v: "get_prop h p ''primitive'' = Some v"
    and c: "get_prop h p ''component'' = Some (VRef c0)" and c0: "c0 < length h"
    and r: "get_prop h p ''circularReference'' = Some (VRef r0)" and r0: "r0 < length h"
    by (rule wf_prototypeE)
  from p v c c0 r r0 clone_allocates [OF p c r r0] that show thesis
    by blast
qed

lemma wf_client_heap: "wf_prototype client_heap 0"
  by (simp add: wf_prototype_def get_prop_def client_heap_def)

lemma wf_year_heap: "wf_prototype year_heap 0"
  by (simp add: wf_prototype_def get_prop_def year_heap_def)

section \<open>The clone of a well-formed Prototype\<close>

text \<open>
  C5, as stated, fails: the field is not carried over by value. On the objects of
  \<open>clientCode\<close> the clone (address 3) has no own field \<open>primitive\<close>, and once 7 is
  assigned to \<open>p1.primitive\<close> the read of \<open>primitive\<close> on the clone yields 7, not
  the 245 that \<open>p1\<close> held when it was cloned.
\<close>

theorem clone_primitive_not_copied_counterexample:
  "get_prop client_heap 0 ''primitive'' = Some (VNum 245) \<and>
   clone 0 client_heap = Inr (3, client_heap @
     [\<lparr>own = [''component'' \<mapsto> VRef 4, ''circularReference'' \<mapsto> VRef 5], proto = Some 0\<rparr>,
      \<lparr>own = Map.empty, proto = Some 1\<rparr>,
      \<lparr>own = [''prototype'' \<mapsto> VRef 6], proto = None\<rparr>,
      \<lparr>own = [''primitive'' \<mapsto> VNum 245, ''component'' \<mapsto> VRef 1,
              ''circularReference'' \<mapsto> VRef 2], proto = None\<rparr>]) \<and>
   [''component'' \<mapsto> VRef 4, ''circularReference'' \<mapsto> VRef 5] ''primitive'' = None \<and>
   get_prop (set_prop (client_heap @
     [\<lparr>own = [''component'' \<mapsto> VRef 4, ''circularReference'' \<mapsto> VRef 5], proto = Some 0\<rparr>,
      \<lparr>own = Map.empty, proto = Some 1\<rparr>,
      \<lparr>own = [''prototype'' \<mapsto> VRef 6], proto = None\<rparr>,
      \<lparr>own = [''primitive'' \<mapsto> VNum 245, ''component'' \<mapsto> VRef 1,
              ''circularReference'' \<mapsto> VRef 2], proto = None\<rparr>]) 0 ''primitive'' (VNum 7))
     3 ''primitive'' = Some (VNum 7)"
proof -
  have p: "0 < length client_heap"
    by (simp add: client_heap_def)
  have v: "get_prop client_heap 0 ''primitive'' = Some (VNum 245)"
    by (simp add: get_prop_def client_heap_def)
  have c: "get_prop client_heap 0 ''component'' = Some (VRef 1)"
    by (simp add: get_prop_def client_heap_def)
  have r: "get_prop client_heap 0 ''circularReference'' = Some (VRef 2)"
    by (simp add: get_prop_def client_heap_def)
  have r0: "2 < length client_heap"
    by (simp add: client_heap_def)
  have len: "length client_heap = 3"
    by (simp add: client_heap_def)
  have o0: "own (client_heap ! 0) = [''primitive'' \<mapsto> VNum 245, ''component'' \<mapsto> VRef 1,
      ''circularReference'' \<mapsto> VRef 2]"
    by (simp add: client_heap_def)
  have o2: "own (client_heap ! 2) = [''prototype'' \<mapsto> VRef 0]"
    by (simp add: client_heap_def)
  have cl: "clone 0 client_heap = Inr (3, client_heap @
     [\<lparr>own = [''component'' \<mapsto> VRef 4, ''circularReference'' \<mapsto> VRef 5], proto = Some 0\<rparr>,
      \<lparr>own = Map.empty, proto = Some 1\<rparr>,
      \<lparr>own = [''prototype'' \<mapsto> VRef 6], proto = None\<rparr>,
      \<lparr>own = [''primitive'' \<mapsto> VNum 245, ''component'' \<mapsto> VRef 1,
              ''circularReference'' \<mapsto> VRef 2], proto = None\<rparr>])"
    using clone_allocates [OF p c r r0] by (simp add: len o0 o2)
  have no_own: "[''component'' \<mapsto> VRef 4, ''circularReference'' \<mapsto> VRef 5] ''primitive'' = None"
    by simp
  have later: "get_prop (set_prop (client_heap @
     [\<lparr>own = [''component'' \<mapsto> VRef 4, ''circularReference'' \<mapsto> VRef 5], proto = Some 0\<rparr>,
      o4, o5, o6]) 0 ''primitive'' (VNum 7)) 3 ''primitive'' = Some (VNum 7)" for o4 o5 o6
    by (rule get_prop_inherited_own [where b = 0])
      (simp_all add: set_prop_def len nth_append list_update_append)
  from v cl no_own later show ?thesis
    by simp
qed

text \<open>
  C5, amended: for every well-formed Prototype \<open>p\<close>, the read of \<open>primitive\<close> on the
  clone, right after \<open>clone\<close> returns, yields the value that the read on \<open>p\<close> yields.
  The value is not copied: the clone is a new object, distinct from \<open>p\<close>, that has
  no own field \<open>primitive\<close> and whose prototype is \<open>p\<close>, so the read is delegated
  to \<open>p\<close>.
\<close>

theorem clone_primitive_read_delegated:
  assumes "wf_prototype h p"
  shows "\<exists>c h' v. clone p h = Inr (c, h') \<and>
           length h \<le> c \<and> c < length h' \<and> c \<noteq> p \<and>
           proto (h' ! c) = Some p \<and> own (h' ! c) ''primitive'' = None \<and>
           get_prop h p ''primitive'' = Some v \<and>
           get_prop h' c ''primitive'' = Some v"
proof -
  from assms obtain v c0 r0 h' where
    p: "p < length h"
    and v: "get_prop h p ''primitive'' = Some v"
    and h'_def: "h' = h @
       [\<lparr>own = [''component'' \<mapsto> VRef (length h + 1),
                ''circularReference'' \<mapsto> VRef (length h + 2)], proto = Some p\<rparr>,
        \<lparr>own = Map.empty, proto = Some c0\<rparr>,
        \<lparr>own = (own (h ! r0))(''prototype'' \<mapsto> VRef (length h + 3)), proto = None\<rparr>,
        \<lparr>own = own (h ! p), proto = None\<rparr>]"
    and cl: "clone p h = Inr (length h, h')"
    by (rule clone_wf_prototype)
  have new: "length h \<le> length h" "length h < length h'" "length h \<noteq> p"
    using p by (simp_all add: h'_def)
  have link: "proto (h' ! length h) = Some p" "own (h' ! length h) ''primitive'' = None"
    by (simp_all add: h'_def)
  have rd: "get_prop h' (length h) ''primitive'' = Some v"
    unfolding h'_def by (rule get_prop_inherited [OF _ _ _ _ v]) simp_all
  from cl new link v rd show ?thesis
    by blast
qed

theorem clone_primitive_read_delegated_witness:
  "wf_prototype client_heap 0 \<and>
   (\<exists>c h' v. clone 0 client_heap = Inr (c, h') \<and>
           length client_heap \<le> c \<and> c < length h' \<and> c \<noteq> 0 \<and>
           proto (h' ! c) = Some 0 \<and> own (h' ! c) ''primitive'' = None \<and>
           get_prop client_heap 0 ''primitive'' = Some v \<and>
           get_prop h' c ''primitive'' = Some v)"
  using clone_primitive_read_delegated [OF wf_client_heap] wf_client_heap by simp

text \<open>
  C1: the claim is that the holder of the clone's back reference references the clone
  itself. On the objects of \<open>clientCode\<close> the clone is the object at address 3 and its
  holder, at address 5, references the object at address 6: a third object, which holds
  the own properties of the original.
\<close>

theorem clone_client_owner_is_third_object:
  "clone 0 client_heap = Inr (3, client_heap @
     [\<lparr>own = [''component'' \<mapsto> VRef 4, ''circularReference'' \<mapsto> VRef 5], proto = Some 0\<rparr>,
      \<lparr>own = Map.empty, proto = Some 1\<rparr>,
      \<lparr>own = [''prototype'' \<mapsto> VRef 6], proto = None\<rparr>,
      \<lparr>own = [''primitive'' \<mapsto> VNum 245, ''component'' \<mapsto> VRef 1,
              ''circularReference'' \<mapsto> VRef 2], proto = None\<rparr>])"
proof -
  have p: "0 < length client_heap"
    by (simp add: client_heap_def)
  have c: "get_prop client_heap 0 ''component'' = Some (VRef 1)"
    by (simp add: get_prop_def client_heap_def)
  have r: "get_prop client_heap 0 ''circularReference'' = Some (VRef 2)"
    by (simp add: get_prop_def client_heap_def)
  have r0: "2 < length client_heap"
    by (simp add: client_heap_def)
  have len: "length client_heap = 3"
    by (simp add: client_heap_def)
  have o0: "own (client_heap ! 0) = [''primitive'' \<mapsto> VNum 245, ''component'' \<mapsto> VRef 1,
      ''circularReference'' \<mapsto> VRef 2]"
    by (simp add: client_heap_def)
  have o2: "own (client_heap ! 2) = [''prototype'' \<mapsto> VRef 0]"
    by (simp add: client_heap_def)
  show ?thesis
    using clone_allocates [OF p c r r0] by (simp add: len o0 o2)
qed

text \<open>
  C2, as stated, fails: the component of the original (address 1) has the own field
  \<open>year\<close>, and the component of the clone (address 4) has no own field at all.
\<close>

theorem clone_year_component_counterexample:
  "wf_prototype year_heap 0 \<and>
   own (year_heap ! 1) ''year'' = Some (VNum 2024) \<and>
   clone 0 year_heap = Inr (3, year_heap @
     [\<lparr>own = [''component'' \<mapsto> VRef 4, ''circularReference'' \<mapsto> VRef 5], proto = Some 0\<rparr>,
      \<lparr>own = Map.empty, proto = Some 1\<rparr>,
      \<lparr>own = [''prototype'' \<mapsto> VRef 6], proto = None\<rparr>,
      \<lparr>own = [''primitive'' \<mapsto> VNum 245, ''component'' \<mapsto> VRef 1,
              ''circularReference'' \<mapsto> VRef 2], proto = None\<rparr>])"
proof -
  have p: "0 < length year_heap"
    by (simp add: year_heap_def)
  have c: "get_prop year_heap 0 ''component'' = Some (VRef 1)"
    by (simp add: get_prop_def year_heap_def)
  have r: "get_prop year_heap 0 ''circularReference'' = Some (VRef 2)"
    by (simp add: get_prop_def year_heap_def)
  have r0: "2 < length year_heap"
    by (simp add: year_heap_def)
  have len: "length year_heap = 3"
    by (simp add: year_heap_def)
  have o0: "own (year_heap ! 0) = [''primitive'' \<mapsto> VNum 245, ''component'' \<mapsto> VRef 1,
      ''circularReference'' \<mapsto> VRef 2]"
    by (simp add: year_heap_def)
  have o2: "own (year_heap ! 2) = [''prototype'' \<mapsto> VRef 0]"
    by (simp add: year_heap_def)
  have "own (year_heap ! 1) ''year'' = Some (VNum 2024)"
    by (simp add: year_heap_def)
  moreover have "clone 0 year_heap = Inr (3, year_heap @
     [\<lparr>own = [''component'' \<mapsto> VRef 4, ''circularReference'' \<mapsto> VRef 5], proto = Some 0\<rparr>,
      \<lparr>own = Map.empty, proto = Some 1\<rparr>,
      \<lparr>own = [''prototype'' \<mapsto> VRef 6], proto = None\<rparr>,
      \<lparr>own = [''primitive'' \<mapsto> VNum 245, ''component'' \<mapsto> VRef 1,
              ''circularReference'' \<mapsto> VRef 2], proto = None\<rparr>])"
    using clone_allocates [OF p c r r0] by (simp add: len o0 o2)
  ultimately show ?thesis
    using wf_year_heap by simp
qed

text \<open>
  C2, amended: for every well-formed Prototype \<open>p\<close>, the component of the clone is a
  new object, reference-distinct from the component of \<open>p\<close>; it has no own field, its
  prototype is the component of \<open>p\<close>, and so every read of a field on it yields the
  value that the read on the component of \<open>p\<close> yields.
\<close>

theorem clone_component_delegates:
  assumes "wf_prototype h p"
  shows "\<exists>c h' c0 c2. clone p h = Inr (c, h') \<and>
           get_prop h p ''component'' = Some (VRef c0) \<and>
           get_prop h' c ''component'' = Some (VRef c2) \<and>
           c2 \<noteq> c0 \<and> length h \<le> c2 \<and> c2 < length h' \<and>
           own (h' ! c2) = Map.empty \<and> proto (h' ! c2) = Some c0 \<and>
           (\<forall>k v. get_prop h c0 k = Some v \<longrightarrow> get_prop h' c2 k = Some v)"
proof -
  from assms obtain v c0 r0 h' where
    p: "p < length h"
    and c: "get_prop h p ''component'' = Some (VRef c0)" and c0: "c0 < length h"
    and h'_def: "h' = h @
       [\<lparr>own = [''component'' \<mapsto> VRef (length h + 1),
                ''circularReference'' \<mapsto> VRef (length h + 2)], proto = Some p\<rparr>,
        \<lparr>own = Map.empty, proto = Some c0\<rparr>,
        \<lparr>own = (own (h ! r0))(''prototype'' \<mapsto> VRef (length h + 3)), proto = None\<rparr>,
        \<lparr>own = own (h ! p), proto = None\<rparr>]"
    and cl: "clone p h = Inr (length h, h')"
    by (rule clone_wf_prototype)
  have rd: "get_prop h' (length h) ''component'' = Some (VRef (length h + 1))"
    by (rule get_prop_own) (simp_all add: h'_def)
  have fresh: "length h + 1 \<noteq> c0" "length h \<le> length h + 1" "length h + 1 < length h'"
    using c0 by (simp_all add: h'_def)
  have ob: "own (h' ! (length h + 1)) = Map.empty" "proto (h' ! (length h + 1)) = Some c0"
    by (simp_all add: h'_def nth_append)
  have dl: "get_prop h' (length h + 1) k = Some v" if "get_prop h c0 k = Some v" for k v
    unfolding h'_def
    by (rule get_prop_inherited [OF _ _ _ _ that]) (simp_all add: nth_append)
  from cl c rd fresh ob dl show ?thesis
    by blast
qed

theorem clone_component_delegates_witness:
  "wf_prototype year_heap 0 \<and>
   (\<exists>c h' c0 c2. clone 0 year_heap = Inr (c, h') \<and>
           get_prop year_heap 0 ''component'' = Some (VRef c0) \<and>
           get_prop h' c ''component'' = Some (VRef c2) \<and>
           c2 \<noteq> c0 \<and> length year_heap \<le> c2 \<and> c2 < length h' \<and>
           own (h' ! c2) = Map.empty \<and> proto (h' ! c2) = Some c0 \<and>
           (\<forall>k v. get_prop year_heap c0 k = Some v \<longrightarrow> get_prop h' c2 k = Some v))"
  using clone_component_delegates [OF wf_year_heap] wf_year_heap by simp

text \<open>
  C3: for every well-formed Prototype \<open>p\<close>, the object that the clone's holder
  references is reference-distinct from \<open>p\<close>.
\<close>

theorem clone_owner_not_original:
  assumes "wf_prototype h p"
  shows "\<exists>c h' r ow. clone p h = Inr (c, h') \<and>
           get_prop h' c ''circularReference'' = Some (VRef r) \<and>
           get_prop h' r ''prototype'' = Some (VRef ow) \<and>
           ow \<noteq> p"
proof -
  from assms obtain v c0 r0 h' where
    p: "p < length h"
    and c: "get_prop h p ''component'' = Some (VRef c0)" and c0: "c0 < length h"
    and h'_def: "h' = h @
       [\<lparr>own = [''component'' \<mapsto> VRef (length h + 1),
                ''circularReference'' \<mapsto> VRef (length h + 2)], proto = Some p\<rparr>,
        \<lparr>own = Map.empty, proto = Some c0\<rparr>,
        \<lparr>own = (own (h ! r0))(''prototype'' \<mapsto> VRef (length h + 3)), proto = None\<rparr>,
        \<lparr>own = own (h ! p), proto = None\<rparr>]"
    and cl: "clone p h = Inr (length h, h')"
    by (rule clone_wf_prototype)
  have rd: "get_prop h' (length h) ''circularReference'' = Some (VRef (length h + 2))"
    by (rule get_prop_own) (simp_all add: h'_def)
  have ow: "get_prop h' (length h + 2) ''prototype'' = Some (VRef (length h + 3))"
    by (rule get_prop_own) (simp_all add: h'_def nth_append)
  have "length h + 3 \<noteq> p"
    using p by simp
  with cl rd ow show ?thesis
    by blast
qed

theorem clone_owner_not_original_witness:
  "wf_prototype client_heap 0 \<and>
   (\<exists>c h' r ow. clone 0 client_heap = Inr (c, h') \<and>
           get_prop h' c ''circularReference'' = Some (VRef r) \<and>
           get_prop h' r ''prototype'' = Some (VRef ow) \<and>
           ow \<noteq> 0)"
  using clone_owner_not_original [OF wf_client_heap] wf_client_heap by simp

text \<open>
  C4: for every well-formed Prototype \<open>p\<close>, the holder of the clone is a new object,
  reference-distinct from the holder of \<open>p\<close>; it carries the holder's own fields, and
  its back reference is set to another new object, neither the clone nor an object that
  existed before the call, whose own fields are the own fields of \<open>p\<close>.
\<close>

theorem clone_holder_new_owner_shallow_copy:
  assumes "wf_prototype h p"
  shows "\<exists>c h' r0 r ow. clone p h = Inr (c, h') \<and>
           get_prop h p ''circularReference'' = Some (VRef r0) \<and>
           get_prop h' c ''circularReference'' = Some (VRef r) \<and>
           r \<noteq> r0 \<and> length h \<le> r \<and> r < length h' \<and>
           own (h' ! r) = (own (h ! r0))(''prototype'' \<mapsto> VRef ow) \<and>
           get_prop h' r ''prototype'' = Some (VRef ow) \<and>
           length h \<le> ow \<and> ow < length h' \<and> ow \<noteq> c \<and>
           own (h' ! ow) = own (h ! p) \<and> proto (h' ! ow) = None"
proof -
  from assms obtain v c0 r0 h' where
    p: "p < length h"
    and c: "get_prop h p ''component'' = Some (VRef c0)" and c0: "c0 < length h"
    and r: "get_prop h p ''circularReference'' = Some (VRef r0)" and r0: "r0 < length h"
    and h'_def: "h' = h @
       [\<lparr>own = [''component'' \<mapsto> VRef (length h + 1),
                ''circularReference'' \<mapsto> VRef (length h + 2)], proto = Some p\<rparr>,
        \<lparr>own = Map.empty, proto = Some c0\<rparr>,
        \<lparr>own = (own (h ! r0))(''prototype'' \<mapsto> VRef (length h + 3)), proto = None\<rparr>,
        \<lparr>own = own (h ! p), proto = None\<rparr>]"
    and cl: "clone p h = Inr (length h, h')"
    by (rule clone_wf_prototype)
  have rd: "get_prop h' (length h) ''circularReference'' = Some (VRef (length h + 2))"
    by (rule get_prop_own) (simp_all add: h'_def)
  have fresh: "length h + 2 \<noteq> r0" "length h \<le> length h + 2" "length h + 2 < length h'"
    using r0 by (simp_all add: h'_def)
  have holder: "own (h' ! (length h + 2)) = (own (h ! r0))(''prototype'' \<mapsto> VRef (length h + 3))"
    by (simp add: h'_def nth_append)
  have ow: "get_prop h' (length h + 2) ''prototype'' = Some (VRef (length h + 3))"
    by (rule get_prop_own) (simp_all add: h'_def nth_append)
  have fresh_ow: "length h \<le> length h + 3" "length h + 3 < length h'" "length h + 3 \<noteq> length h"
    by (simp_all add: h'_def)
  have copy: "own (h' ! (length h + 3)) = own (h ! p)" "proto (h' ! (length h + 3)) = None"
    by (simp_all add: h'_def nth_append)
  from cl r rd fresh holder ow fresh_ow copy show ?thesis
    by blast
qed

theorem clone_holder_new_owner_shallow_copy_witness:
  "wf_prototype client_heap 0 \<and>
   (\<exists>c h' r0 r ow. clone 0 client_heap = Inr (c, h') \<and>
           get_prop client_heap 0 ''circularReference'' = Some (VRef r0) \<and>
           get_prop h' c ''circularReference'' = Some (VRef r) \<and>
           r \<noteq> r0 \<and> length client_heap \<le> r \<and> r < length h' \<and>
           own (h' ! r) = (own (client_heap ! r0))(''prototype'' \<mapsto> VRef ow) \<and>
           get_prop h' r ''prototype'' = Some (VRef ow) \<and>
           length client_heap \<le> ow \<and> ow < length h' \<and> ow \<noteq> c \<and>
           own (h' ! ow) = own (client_heap ! 0) \<and> proto (h' ! ow) = None)"
  using clone_holder_new_owner_shallow_copy [OF wf_client_heap] wf_client_heap by simp

text \<open>
  C6: for every well-formed Prototype \<open>p\<close>, \<open>clone\<close> changes no object that existed
  before the call: the store after the call begins with the store before it. So \<open>p\<close>,
  its component and its holder are the same objects with the same fields, and the reads
  of the three fields of \<open>p\<close> yield what they yielded before.
\<close>

theorem clone_leaves_source_unchanged:
  assumes "wf_prototype h p"
  shows "\<exists>c h' c0 r0. clone p h = Inr (c, h') \<and>
           take (length h) h' = h \<and>
           get_prop h p ''component'' = Some (VRef c0) \<and>
           get_prop h p ''circularReference'' = Some (VRef r0) \<and>
           h' ! p = h ! p \<and> h' ! c0 = h ! c0 \<and> h' ! r0 = h ! r0 \<and>
           get_prop h' p ''primitive'' = get_prop h p ''primitive'' \<and>
           get_prop h' p ''component'' = get_prop h p ''component'' \<and>
           get_prop h' p ''circularReference'' = get_prop h p ''circularReference''"
proof -
  from assms obtain v c0 r0 h' where
    p: "p < length h"
    and v: "get_prop h p ''primitive'' = Some v"
    and c: "get_prop h p ''component'' = Some (VRef c0)" and c0: "c0 < length h"
    and r: "get_prop h p ''circularReference'' = Some (VRef r0)" and r0: "r0 < length h"
    and h'_def: "h' = h @
       [\<lparr>own = [''component'' \<mapsto> VRef (length h + 1),
                ''circularReference'' \<mapsto> VRef (length h + 2)], proto = Some p\<rparr>,
        \<lparr>own = Map.empty, proto = Some c0\<rparr>,
        \<lparr>own = (own (h ! r0))(''prototype'' \<mapsto> VRef (length h + 3)), proto = None\<rparr>,
        \<lparr>own = own (h ! p), proto = None\<rparr>]"
    and cl: "clone p h = Inr (length h, h')"
    by (rule clone_wf_prototype)
  have old: "take (length h) h' = h"
    by (simp add: h'_def)
  have same: "h' ! p = h ! p" "h' ! c0 = h ! c0" "h' ! r0 = h ! r0"
    using p c0 r0 by (simp_all add: h'_def nth_append)
  have reads: "get_prop h' p ''primitive'' = get_prop h p ''primitive''"
    "get_prop h' p ''component'' = get_prop h p ''component''"
    "get_prop h' p ''circularReference'' = get_prop h p ''circularReference''"
    unfolding h'_def using v c r by (simp_all add: get_prop_append)
  from cl old c r same reads show ?thesis
    by blast
qed

theorem clone_leaves_source_unchanged_witness:
  "wf_prototype client_heap 0 \<and>
   (\<exists>c h' c0 r0. clone 0 client_heap = Inr (c, h') \<and>
           take (length client_heap) h' = client_heap \<and>
           get_prop client_heap 0 ''component'' = Some (VRef c0) \<and>
           get_prop client_heap 0 ''circularReference'' = Some (VRef r0) \<and>
           h' ! 0 = client_heap ! 0 \<and> h' ! c0 = client_heap ! c0 \<and> h' ! r0 = client_heap ! r0 \<and>
           get_prop h' 0 ''primitive'' = get_prop client_heap 0 ''primitive'' \<and>
           get_prop h' 0 ''component'' = get_prop client_heap 0 ''component'' \<and>
           get_prop h' 0 ''circularReference'' = get_prop client_heap 0 ''circularReference'')"
  using clone_leaves_source_unchanged [OF wf_client_heap] wf_client_heap by simp

text \<open>
  C8: for every well-formed Prototype \<open>p\<close>, the clone has no own field \<open>primitive\<close>
  and its component has no own field. Whatever value is assigned to \<open>p.primitive\<close>
  after the call is what a read of \<open>primitive\<close> on the clone yields, and whatever
  value is assigned to a field of the component of \<open>p\<close> is what a read of that field
  on the clone's component yields.
\<close>

theorem clone_shares_state_by_delegation:
  assumes "wf_prototype h p"
  shows "\<exists>c h' c0 c2. clone p h = Inr (c, h') \<and>
           own (h' ! c) ''primitive'' = None \<and>
           get_prop h p ''component'' = Some (VRef c0) \<and>
           get_prop h' c ''component'' = Some (VRef c2) \<and>
           own (h' ! c2) = Map.empty \<and>
           (\<forall>v. get_prop (set_prop h' p ''primitive'' v) c ''primitive'' = Some v) \<and>
           (\<forall>k v. get_prop (set_prop h' c0 k v) c2 k = Some v)"
proof -
  from assms obtain v c0 r0 h' where
    p: "p < length h"
    and c: "get_prop h p ''component'' = Some (VRef c0)" and c0: "c0 < length h"
    and h'_def: "h' = h @
       [\<lparr>own = [''component'' \<mapsto> VRef (length h + 1),
                ''circularReference'' \<mapsto> VRef (length h + 2)], proto = Some p\<rparr>,
        \<lparr>own = Map.empty, proto = Some c0\<rparr>,
        \<lparr>own = (own (h ! r0))(''prototype'' \<mapsto> VRef (length h + 3)), proto = None\<rparr>,
        \<lparr>own = own (h ! p), proto = None\<rparr>]"
    and cl: "clone p h = Inr (length h, h')"
    by (rule clone_wf_prototype)
  have no_own: "own (h' ! length h) ''primitive'' = None"
    by (simp add: h'_def)
  have rd: "get_prop h' (length h) ''component'' = Some (VRef (length h + 1))"
    by (rule get_prop_own) (simp_all add: h'_def)
  have empty: "own (h' ! (length h + 1)) = Map.empty"
    by (simp add: h'_def nth_append)
  have prim: "get_prop (set_prop h' p ''primitive'' v) (length h) ''primitive'' = Some v" for v
    by (rule get_prop_inherited_own [where b = p])
      (use p in \<open>simp_all add: h'_def set_prop_def nth_append list_update_append\<close>)
  have comp: "get_prop (set_prop h' c0 k v) (length h + 1) k = Some v" for k v
    by (rule get_prop_inherited_own [where b = c0])
      (use c0 in \<open>simp_all add: h'_def set_prop_def nth_append list_update_append\<close>)
  from cl no_own c rd empty prim comp show ?thesis
    by blast
qed

theorem clone_shares_state_by_delegation_witness:
  "wf_prototype year_heap 0 \<and>
   (\<exists>c h' c0 c2. clone 0 year_heap = Inr (c, h') \<and>
           own (h' ! c) ''primitive'' = None \<and>
           get_prop year_heap 0 ''component'' = Some (VRef c0) \<and>
           get_prop h' c ''component'' = Some (VRef c2) \<and>
           own (h' ! c2) = Map.empty \<and>
           (\<forall>v. get_prop (set_prop h' 0 ''primitive'' v) c ''primitive'' = Some v) \<and>
           (\<forall>k v. get_prop (set_prop h' c0 k v) c2 k = Some v))"
  using clone_shares_state_by_delegation [OF wf_year_heap] wf_year_heap by simp

text \<open>
  C7, as stated, fails: a Prototype whose \<open>circularReference\<close> was never assigned is
  not well-formed, yet \<open>clone\<close> raises no error on it and returns a clone, whose
  holder (address 4) has the single field \<open>prototype\<close>.
\<close>

theorem clone_missing_holder_counterexample:
  "get_prop no_holder_heap 0 ''circularReference'' = Some VUndefined \<and>
   \<not> wf_prototype no_holder_heap 0 \<and>
   clone 0 no_holder_heap = Inr (2, no_holder_heap @
     [\<lparr>own = [''component'' \<mapsto> VRef 3, ''circularReference'' \<mapsto> VRef 4], proto = Some 0\<rparr>,
      \<lparr>own = Map.empty, proto = Some 1\<rparr>,
      \<lparr>own = [''prototype'' \<mapsto> VRef 5], proto = None\<rparr>,
      \<lparr>own = [''primitive'' \<mapsto> VNum 245, ''component'' \<mapsto> VRef 1], proto = None\<rparr>])"
proof -
  have p: "0 < length no_holder_heap"
    by (simp add: no_holder_heap_def)
  have c: "get_prop no_holder_heap 0 ''component'' = Some (VRef 1)"
    by (simp add: get_prop_def no_holder_heap_def)
  have r: "get_prop no_holder_heap 0 ''circularReference'' = Some VUndefined"
    by (simp add: get_prop_def no_holder_heap_def)
  have len: "length no_holder_heap = 2"
    by (simp add: no_holder_heap_def)
  have o0: "own (no_holder_heap ! 0) = [''primitive'' \<mapsto> VNum 245, ''component'' \<mapsto> VRef 1]"
    by (simp add: no_holder_heap_def)
  have "\<not> wf_prototype no_holder_heap 0"
    by (simp add: wf_prototype_def r)
  moreover have "clone 0 no_holder_heap = Inr (2, no_holder_heap @
     [\<lparr>own = [''component'' \<mapsto> VRef 3, ''circularReference'' \<mapsto> VRef 4], proto = Some 0\<rparr>,
      \<lparr>own = Map.empty, proto = Some 1\<rparr>,
      \<lparr>own = [''prototype'' \<mapsto> VRef 5], proto = None\<rparr>,
      \<lparr>own = [''primitive'' \<mapsto> VNum 245, ''component'' \<mapsto> VRef 1], proto = None\<rparr>])"
    using clone_without_holder [OF p c r] by (simp add: len o0)
  ultimately show ?thesis
    using r by simp
qed

text \<open>
  C7, amended: on a well-formed Prototype \<open>clone\<close> cannot fail and returns a complete
  clone, itself a well-formed Prototype. The method validates nothing. When the
  component is missing, \<open>Object.create\<close> throws a TypeError; when the component is an
  object and the holder is missing, no error is raised and a clone is returned whose
  holder has the single field \<open>prototype\<close>.
\<close>

theorem clone_total_unvalidated:
  "(wf_prototype h p \<longrightarrow> (\<exists>c h'. clone p h = Inr (c, h') \<and> wf_prototype h' c)) \<and>
   (p < length h \<and> get_prop h p ''component'' = Some VUndefined \<longrightarrow>
      clone p h = Inl TypeError) \<and>
   (p < length h \<and> get_prop h p ''component'' = Some (VRef c0) \<and>
    get_prop h p ''circularReference'' = Some VUndefined \<longrightarrow>
      (\<exists>c h' r ow. clone p h = Inr (c, h') \<and>
         get_prop h' c ''circularReference'' = Some (VRef r) \<and>
         own (h' ! r) = [''prototype'' \<mapsto> VRef ow]))"
proof (intro conjI impI)
  assume "wf_prototype h p"
  then obtain v c0 r0 h' where
    p: "p < length h"
    and v: "get_prop h p ''primitive'' = Some v"
    and h'_def: "h' = h @
       [\<lparr>own = [''component'' \<mapsto> VRef (length h + 1),
                ''circularReference'' \<mapsto> VRef (length h + 2)], proto = Some p\<rparr>,
        \<lparr>own = Map.empty, proto = Some c0\<rparr>,
        \<lparr>own = (own (h ! r0))(''prototype'' \<mapsto> VRef (length h + 3)), proto = None\<rparr>,
        \<lparr>own = own (h ! p), proto = None\<rparr>]"
    and cl: "clone p h = Inr (length h, h')"
    by (rule clone_wf_prototype)
  have prim: "get_prop h' (length h) ''primitive'' = Some v"
    unfolding h'_def by (rule get_prop_inherited [OF _ _ _ _ v]) simp_all
  have comp: "get_prop h' (length h) ''component'' = Some (VRef (length h + 1))"
    by (rule get_prop_own) (simp_all add: h'_def)
  have hold: "get_prop h' (length h) ''circularReference'' = Some (VRef (length h + 2))"
    by (rule get_prop_own) (simp_all add: h'_def)
  have "wf_prototype h' (length h)"
    unfolding wf_prototype_def by (simp add: prim comp hold) (simp add: h'_def)
  with cl show "\<exists>c h'. clone p h = Inr (c, h') \<and> wf_prototype h' c"
    by blast
next
  assume "p < length h \<and> get_prop h p ''component'' = Some VUndefined"
  then show "clone p h = Inl TypeError"
    by (simp add: clone_without_component)
next
  assume a: "p < length h \<and> get_prop h p ''component'' = Some (VRef c0) \<and>
    get_prop h p ''circularReference'' = Some VUndefined"
  define h' where "h' = h @
     [\<lparr>own = [''component'' \<mapsto> VRef (length h + 1),
              ''circularReference'' \<mapsto> VRef (length h + 2)], proto = Some p\<rparr>,
      \<lparr>own = Map.empty, proto = Some c0\<rparr>,
      \<lparr>own = [''prototype'' \<mapsto> VRef (length h + 3)], proto = None\<rparr>,
      \<lparr>own = own (h ! p), proto = None\<rparr>]"
  from a have cl: "clone p h = Inr (length h, h')"
    unfolding h'_def by (intro clone_without_holder) simp_all
  have hold: "get_prop h' (length h) ''circularReference'' = Some (VRef (length h + 2))"
    by (rule get_prop_own) (simp_all add: h'_def)
  have "own (h' ! (length h + 2)) = [''prototype'' \<mapsto> VRef (length h + 3)]"
    by (simp add: h'_def nth_append)
  with cl hold show "\<exists>c h' r ow. clone p h = Inr (c, h') \<and>
         get_prop h' c ''circularReference'' = Some (VRef r) \<and>
         own (h' ! r) = [''prototype'' \<mapsto> VRef ow]"
    by blast
qed

theorem clone_total_unvalidated_witness:
  "wf_prototype client_heap 0 \<and>
   (\<exists>c h'. clone 0 client_heap = Inr (c, h') \<and> wf_prototype h' c) \<and>
   0 < length no_component_heap \<and>
   get_prop no_component_heap 0 ''component'' = Some VUndefined \<and>
   clone 0 no_component_heap = Inl TypeError \<and>
   0 < length no_holder_heap \<and>
   get_prop no_holder_heap 0 ''component'' = Some (VRef 1) \<and>
   get_prop no_holder_heap 0 ''circularReference'' = Some VUndefined \<and>
   (\<exists>c h' r ow. clone 0 no_holder_heap = Inr (c, h') \<and>
         get_prop h' c ''circularReference'' = Some (VRef r) \<and>
         own (h' ! r) = [''prototype'' \<mapsto> VRef ow])"
proof -
  have a: "0 < length no_component_heap"
    "get_prop no_component_heap 0 ''component'' = Some VUndefined"
    by (simp_all add: get_prop_def no_component_heap_def)
  have b: "0 < length no_holder_heap"
    "get_prop no_holder_heap 0 ''component'' = Some (VRef 1)"
    "get_prop no_holder_heap 0 ''circularReference'' = Some VUndefined"
    by (simp_all add: get_prop_def no_holder_heap_def)
  show ?thesis
    using clone_total_unvalidated [of client_heap 0 1]
      clone_total_unvalidated [of no_component_heap 0 1]
      clone_total_unvalidated [of no_holder_heap 0 1]
      wf_client_heap a b
    by simp
qed

section \<open>The instance of the Singleton\<close>

text \<open>A call made after another call returns the same value and leaves the state as it is.\<close>

lemma getInstance_cached:
  "getInstance (snd (getInstance s)) = (fst (getInstance s), snd (getInstance s))"
  by (simp add: getInstance_def new_Singleton_def alloc_def Let_def)

lemma nth_call_first:
  "fst (nth_call n s) = fst (getInstance s)"
  by (induction n arbitrary: s) (simp_all add: getInstance_cached)

text \<open>
  C9: within one process any two calls of \<open>getInstance\<close> return the same value. The
  first call of a fresh process allocates the instance and stores its reference in the
  static field; a call that follows a call returns what that call returned and changes
  nothing; so \<open>clientCode\<close> prints that both variables contain the same instance.
\<close>

theorem getInstance_same_identity:
  "fst (nth_call m s) = fst (nth_call n s) \<and>
   getInstance (snd (getInstance s)) = (fst (getInstance s), snd (getInstance s)) \<and>
   getInstance (fresh_process h) =
     (VRef (length h),
      \<lparr>singleton_instance = VRef (length h), store = h @ [\<lparr>own = Map.empty, proto = None\<rparr>]\<rparr>) \<and>
   singleton_clientCode s = ''Singleton works, both variables contain the same instance.''"
proof (intro conjI)
  show "fst (nth_call m s) = fst (nth_call n s)"
    by (simp add: nth_call_first)
  show "getInstance (snd (getInstance s)) = (fst (getInstance s), snd (getInstance s))"
    by (rule getInstance_cached)
  show "getInstance (fresh_process h) =
     (VRef (length h),
      \<lparr>singleton_instance = VRef (length h), store = h @ [\<lparr>own = Map.empty, proto = None\<rparr>]\<rparr>)"
    by (simp add: getInstance_def fresh_process_def new_Singleton_def alloc_def)
  obtain s1 st1 where first: "getInstance s = (s1, st1)"
    by (cases "getInstance s")
  with getInstance_cached [of s] have "getInstance st1 = (s1, st1)"
    by simp
  with first show "singleton_clientCode s =
      ''Singleton works, both variables contain the same instance.''"
    by (simp add: singleton_clientCode_def)
qed

section \<open>The product a creator works with\<close>

text \<open>
  C10: \<open>someOperation\<close> of ConcreteCreator1 returns a string that contains the
  operation string of ConcreteProduct1, and \<open>someOperation\<close> of ConcreteCreator2 one
  that contains the operation string of ConcreteProduct2. The two operation strings
  differ, and neither creator's string contains the other product's.
\<close>

theorem someOperation_embeds_product_string:
  "sublist (operation ConcreteProduct1) (someOperation ConcreteCreator1) \<and>
   sublist (operation ConcreteProduct2) (someOperation ConcreteCreator2) \<and>
   operation ConcreteProduct1 \<noteq> operation ConcreteProduct2 \<and>
   \<not> sublist (operation ConcreteProduct2) (someOperation ConcreteCreator1) \<and>
   \<not> sublist (operation ConcreteProduct1) (someOperation ConcreteCreator2)"
proof (intro conjI)
  show "sublist (operation ConcreteProduct1) (someOperation ConcreteCreator1)"
    unfolding someOperation_def Let_def factoryMethod.simps by (rule sublist_append_leftI)
  show "sublist (operation ConcreteProduct2) (someOperation ConcreteCreator2)"
    unfolding someOperation_def Let_def factoryMethod.simps by (rule sublist_append_leftI)
  show "operation ConcreteProduct1 \<noteq> operation ConcreteProduct2"
    by simp
  show "\<not> sublist (operation ConcreteProduct2) (someOperation ConcreteCreator1)"
    by (simp add: someOperation_def sublist_Cons_right)
  show "\<not> sublist (operation ConcreteProduct1) (someOperation ConcreteCreator2)"
    by (simp add: someOperation_def sublist_Cons_right)
qed

end
